theory Spec2Isabelle
  imports Complex_Main "HOL-Library.AList" "HOL-Library.Multiset" "HOL-Library.Option_ord"
begin

section \<open>The remote service: images and collections\<close>

text \<open>
  \<^verbatim>\<open>hydrafloods/datasets.py\<close> wraps image collections of a remote raster service. The
  module only calls the service's client library, which builds expressions that the
  service evaluates on request. What those calls denote is fixed here once, as functions
  on values, so that the module's own functions can be written over them one call at a
  time: a collection is the list of images its expression denotes, and a function mapped
  over a collection is a function on images. Requests that the service rejects (a band
  that is not there, lists of different lengths) and the error margins of its geometry
  operations are not part of this reading.

  A ground location is a \<open>cell\<close>, a geometry a set of cells. A band gives every cell a
  value or nothing (a masked or uncovered pixel). Pixel values are the service's floats,
  read as real numbers. An image has a property list, a list of named bands and a
  footprint. Times are milliseconds since the epoch.
\<close>

type_synonym cell = nat
type_synonym geometry = "cell set"
type_synonym band = "cell \<Rightarrow> real option"

datatype pval = PNum int | PStr string | PStrs "string list" | PImgs "image list"
  and image = Image (properties: "(string \<times> pval) list") (bands: "(string \<times> band) list")
      (footprint: geometry)

type_synonym imgcoll = "image list"

definition get_prop :: "image \<Rightarrow> string \<Rightarrow> pval option" where
  \<comment> \<open>\<^verbatim>\<open>img.get(key)\<close>; a missing property is the service's null\<close>
  "get_prop img k = map_of (properties img) k"

definition set_prop :: "image \<Rightarrow> string \<Rightarrow> pval option \<Rightarrow> image" where
  \<comment> \<open>\<^verbatim>\<open>img.set(key, value)\<close>; setting null leaves the property absent\<close>
  "set_prop img k v =
     (case v of
        None \<Rightarrow> Image (AList.delete k (properties img)) (bands img) (footprint img)
      | Some x \<Rightarrow> Image (AList.update k x (properties img)) (bands img) (footprint img))"

definition num_prop :: "image \<Rightarrow> string \<Rightarrow> int option" where
  \<comment> \<open>a property read as a number\<close>
  "num_prop i k = (case get_prop i k of Some (PNum t) \<Rightarrow> Some t | _ \<Rightarrow> None)"

definition time_start :: "image \<Rightarrow> int option" where
  "time_start img = num_prop img ''system:time_start''"


definition band_of :: "image \<Rightarrow> string \<Rightarrow> band" where
  \<comment> \<open>the band of that name; the service rejects a name the image lacks, which is read
      here as a band with no valid pixel\<close>
  "band_of img n = (case map_of (bands img) n of Some b \<Rightarrow> b | None \<Rightarrow> (\<lambda>c. None))"

subsection \<open>Collections\<close>

text \<open>
  The two parts of the service that the module cannot see: which images an asset id
  names, and what a reducer computes from a list of images.
\<close>

datatype reducer = ReducerName string | ReducerObj nat

record service =
  catalog :: "string \<Rightarrow> imgcoll"
  reduce_images :: "reducer \<Rightarrow> imgcoll \<Rightarrow> image"

definition ee_ImageCollection :: "service \<Rightarrow> string \<Rightarrow> imgcoll" where
  "ee_ImageCollection S aid = catalog S aid"

definition ee_filterBounds :: "imgcoll \<Rightarrow> geometry \<Rightarrow> imgcoll" where
  \<comment> \<open>keeps the images whose footprint intersects the geometry\<close>
  "ee_filterBounds coll g = filter (\<lambda>i. footprint i \<inter> g \<noteq> {}) coll"

definition in_window :: "int \<Rightarrow> int \<Rightarrow> image \<Rightarrow> bool" where
  "in_window t1 t2 i = (case time_start i of Some t \<Rightarrow> t1 \<le> t \<and> t < t2 | None \<Rightarrow> False)"

definition ee_filterDate :: "imgcoll \<Rightarrow> int \<Rightarrow> int \<Rightarrow> imgcoll" where
  \<comment> \<open>start inclusive, end exclusive\<close>
  "ee_filterDate coll t1 t2 = filter (in_window t1 t2) coll"

definition ee_map :: "(image \<Rightarrow> image) \<Rightarrow> imgcoll \<Rightarrow> imgcoll" where
  "ee_map f coll = map f coll"

definition list_contains :: "string \<Rightarrow> string \<Rightarrow> image \<Rightarrow> bool" where
  \<comment> \<open>\<^verbatim>\<open>ee.Filter.listContains(leftField, rightValue)\<close>\<close>
  "list_contains field v i =
     (case get_prop i field of Some (PStrs xs) \<Rightarrow> v \<in> set xs | _ \<Rightarrow> False)"

definition ee_filter :: "imgcoll \<Rightarrow> (image \<Rightarrow> bool) \<Rightarrow> imgcoll" where
  "ee_filter coll p = filter p coll"

definition ee_merge :: "imgcoll \<Rightarrow> imgcoll \<Rightarrow> imgcoll" where
  \<comment> \<open>all the elements that were in either collection\<close>
  "ee_merge a b = a @ b"

definition ee_sort :: "imgcoll \<Rightarrow> string \<Rightarrow> imgcoll" where
  \<comment> \<open>ascending by a numeric property; images without it come first\<close>
  "ee_sort coll k = sort_key (\<lambda>i. num_prop i k) coll"

subsection \<open>Pixel operations\<close>

definition b2r :: "bool \<Rightarrow> real" where
  "b2r b = (if b then 1 else 0)"

definition px2 :: "(real \<Rightarrow> real \<Rightarrow> real) \<Rightarrow> band \<Rightarrow> band \<Rightarrow> band" where
  \<comment> \<open>a value where both operands have one\<close>
  "px2 f x y = (\<lambda>c. case x c of None \<Rightarrow> None
                     | Some u \<Rightarrow> (case y c of None \<Rightarrow> None | Some v \<Rightarrow> Some (f u v)))"

definition pair_bands ::
  "(real \<Rightarrow> real \<Rightarrow> real) \<Rightarrow> (string \<times> band) list \<Rightarrow> (string \<times> band) list \<Rightarrow> (string \<times> band) list"
where
  \<comment> \<open>the service's band matching for a binary operation: a single band is used against
      all bands of the other image, otherwise bands are paired in order and named as in
      the first image\<close>
  "pair_bands f xs ys =
     (case ys of
        [(m, y)] \<Rightarrow> map (\<lambda>(n, x). (n, px2 f x y)) xs
      | _ \<Rightarrow> (case xs of
                [(n, x)] \<Rightarrow> map (\<lambda>(m, y). (m, px2 f x y)) ys
              | _ \<Rightarrow> map (\<lambda>((n, x), (m, y)). (n, px2 f x y)) (zip xs ys)))"

definition img_binop :: "(real \<Rightarrow> real \<Rightarrow> real) \<Rightarrow> image \<Rightarrow> image \<Rightarrow> image" where
  \<comment> \<open>the result of band arithmetic carries no properties of its operands\<close>
  "img_binop f a b = Image [] (pair_bands f (bands a) (bands b)) (footprint a)"

definition img_unop :: "(real \<Rightarrow> real) \<Rightarrow> image \<Rightarrow> image" where
  "img_unop f a = Image [] (map (\<lambda>(n, x). (n, (\<lambda>c. map_option f (x c)))) (bands a)) (footprint a)"

definition digit :: "nat \<Rightarrow> char" where
  "digit d = ''0123456789'' ! (d mod 10)"

fun decimal :: "nat \<Rightarrow> string" where
  \<comment> \<open>a band index in decimal notation\<close>
  "decimal n = (if n div 10 = 0 then [] else decimal (n div 10)) @ [digit n]"

definition ee_constant :: "real list \<Rightarrow> image" where
  \<comment> \<open>\<^verbatim>\<open>ee.Image.constant\<close> of a list: one unbounded band per value, named
      \<^verbatim>\<open>constant_0\<close>, \<^verbatim>\<open>constant_1\<close>, ...\<close>
  "ee_constant vs =
     Image []
       (map (\<lambda>(k, v). (''constant_'' @ decimal k, (\<lambda>c. Some v))) (enumerate 0 vs))
       UNIV"

definition ee_multiply :: "image \<Rightarrow> image \<Rightarrow> image" where
  "ee_multiply = img_binop (\<lambda>u v. u * v)"

definition ee_add :: "image \<Rightarrow> image \<Rightarrow> image" where
  "ee_add = img_binop (\<lambda>u v. u + v)"

definition ee_lt :: "image \<Rightarrow> image \<Rightarrow> image" where
  "ee_lt = img_binop (\<lambda>u v. b2r (u < v))"

definition ee_gt :: "image \<Rightarrow> image \<Rightarrow> image" where
  "ee_gt = img_binop (\<lambda>u v. b2r (u > v))"

definition ee_lte :: "image \<Rightarrow> image \<Rightarrow> image" where
  "ee_lte = img_binop (\<lambda>u v. b2r (u \<le> v))"

definition ee_gte :: "image \<Rightarrow> image \<Rightarrow> image" where
  "ee_gte = img_binop (\<lambda>u v. b2r (u \<ge> v))"

definition ee_eq :: "image \<Rightarrow> image \<Rightarrow> image" where
  "ee_eq = img_binop (\<lambda>u v. b2r (u = v))"

definition ee_And :: "image \<Rightarrow> image \<Rightarrow> image" where
  \<comment> \<open>1 where both values are non-zero\<close>
  "ee_And = img_binop (\<lambda>u v. b2r (u \<noteq> 0 \<and> v \<noteq> 0))"

definition ee_Not :: "image \<Rightarrow> image" where
  "ee_Not = img_unop (\<lambda>u. b2r (u = 0))"

definition ee_abs :: "image \<Rightarrow> image" where
  "ee_abs = img_unop (\<lambda>u. \<bar>u\<bar>)"

definition apply_mask :: "band \<Rightarrow> band \<Rightarrow> band" where
  \<comment> \<open>a pixel stays valid where it was valid and the mask pixel is valid and non-zero\<close>
  "apply_mask x m = (\<lambda>c. case m c of None \<Rightarrow> None | Some v \<Rightarrow> (if v = 0 then None else x c))"

definition mask_bands :: "(string \<times> band) list \<Rightarrow> (string \<times> band) list \<Rightarrow> (string \<times> band) list" where
  "mask_bands xs ms =
     (case ms of
        [(k, m)] \<Rightarrow> map (\<lambda>(n, x). (n, apply_mask x m)) xs
      | _ \<Rightarrow> map (\<lambda>((n, x), (k, m)). (n, apply_mask x m)) (zip xs ms))"

definition ee_updateMask :: "image \<Rightarrow> image \<Rightarrow> image" where
  \<comment> \<open>the output keeps the metadata and footprint of the input\<close>
  "ee_updateMask img msk =
     Image (properties img) (mask_bands (bands img) (bands msk)) (footprint img)"

definition ee_select :: "image \<Rightarrow> string list \<Rightarrow> string list \<Rightarrow> image" where
  \<comment> \<open>\<^verbatim>\<open>img.select(selectors, names)\<close>: the selected bands in the order asked for, under
      their new names\<close>
  "ee_select img sel new =
     Image (properties img) (map (\<lambda>(s, n). (n, band_of img s)) (zip sel new)) (footprint img)"

definition ee_select1 :: "image \<Rightarrow> string \<Rightarrow> image" where
  \<comment> \<open>\<^verbatim>\<open>img.select(name)\<close>\<close>
  "ee_select1 img n = ee_select img [n] [n]"

definition ee_clip :: "image \<Rightarrow> geometry \<Rightarrow> image" where
  "ee_clip img g =
     Image (properties img)
       (map (\<lambda>(n, x). (n, (\<lambda>c. if c \<in> g then x c else None))) (bands img))
       (footprint img \<inter> g)"






subsection \<open>Joins, lists and dates\<close>

















section \<open>The module\<close>

subsection \<open>Helpers of the package that the module imports\<close>

text \<open>
  \<^verbatim>\<open>decorators.carry_metadata\<close>, \<^verbatim>\<open>geeutils.get_geoms\<close> and \<^verbatim>\<open>geeutils.extract_bits\<close> belong
  to other modules of the package. They are parameters of everything below.
\<close>

record helpers =
  carry_metadata :: "(image \<Rightarrow> image) \<Rightarrow> image \<Rightarrow> image"
  get_geoms :: "image \<Rightarrow> geometry"
  extract_bits :: "image \<Rightarrow> nat \<Rightarrow> nat option \<Rightarrow> string option \<Rightarrow> image"

subsection \<open>Classes and objects\<close>

text \<open>
  The classes of the module, and a class of the user's that extends \<^verbatim>\<open>Dataset\<close>, with or
  without a \<^verbatim>\<open>qa\<close> method of its own.
\<close>

datatype cls = Dataset | Sentinel1 | Viirs | Modis | Landsat8 | Landsat7 | Sentinel2
  | Custom string "(image \<Rightarrow> image) option"


datatype error = AttributeError string

text \<open>
  An object of one of the classes: its class, and its attributes. The two times are read
  as milliseconds. \<^verbatim>\<open>gain\<close> and \<^verbatim>\<open>bias\<close> are attributes that only some constructors set.
\<close>

record dataset =
  cls_of :: cls
  region :: geometry
  start_time :: int
  end_time :: int
  asset_id :: string
  use_qa :: bool
  BANDREMAP :: "(string \<times> string list) list"
  collection :: imgcoll
  gain :: "image option"
  bias :: "image option"

definition BANDREMAP_table :: "(string \<times> string list) list" where
  "BANDREMAP_table =
     [(''landsat7'', [''B1'', ''B2'', ''B3'', ''B4'', ''B5'', ''B7'']),
      (''landsat8'', [''B2'', ''B3'', ''B4'', ''B5'', ''B6'', ''B7'']),
      (''viirs'', [''M2'', ''M4'', ''I1'', ''I2'', ''I3'', ''M11'']),
      (''sen2'', [''B2'', ''B3'', ''B4'', ''B8'', ''B11'', ''B12'']),
      (''modis'', [''sur_refl_b03'', ''sur_refl_b04'', ''sur_refl_b01'', ''sur_refl_b02'',
                  ''sur_refl_b06'', ''sur_refl_b07'']),
      (''new'', [''blue'', ''green'', ''red'', ''nir'', ''swir1'', ''swir2''])]"


subsection \<open>The qa methods\<close>

definition num :: "real \<Rightarrow> image" where
  \<comment> \<open>a number given where an image is expected is a constant image of one band\<close>
  "num v = Image [] [(''constant'', (\<lambda>c. Some v))] UNIV"

definition Sentinel1_qa_body :: "helpers \<Rightarrow> image \<Rightarrow> image" where
  "Sentinel1_qa_body H img =
    (let angles = ee_select1 img ''angle''
     in ee_updateMask img (ee_And (ee_lt angles (num 45)) (ee_gt angles (num 30))))"

definition Sentinel1_qa :: "helpers \<Rightarrow> image \<Rightarrow> image" where
  \<comment> \<open>the method as the class holds it, decorated\<close>
  "Sentinel1_qa H = carry_metadata H (Sentinel1_qa_body H)"

definition Viirs_qa_body :: "helpers \<Rightarrow> image \<Rightarrow> image" where
  "Viirs_qa_body H img =
    (let cloudMask = ee_lt (extract_bits H (ee_select1 img ''QF1'') 2 (Some 3) (Some ''cloud_qa'')) (num 1);
         shadowMask = ee_Not (extract_bits H (ee_select1 img ''QF2'') 3 None (Some ''shadow_qa''));
         snowMask = ee_Not (extract_bits H (ee_select1 img ''QF2'') 5 None (Some ''snow_qa''));
         sensorZenith = ee_lt (ee_abs (ee_select1 img ''SensorZenith'')) (num 6000);
         msk = ee_And (ee_And cloudMask shadowMask) sensorZenith
     in ee_updateMask img msk)"

definition Viirs_qa :: "helpers \<Rightarrow> image \<Rightarrow> image" where
  \<comment> \<open>the method as the class holds it, decorated\<close>
  "Viirs_qa H = carry_metadata H (Viirs_qa_body H)"

definition Modis_qa_body :: "helpers \<Rightarrow> image \<Rightarrow> image" where
  "Modis_qa_body H img =
    (let qa = ee_select1 img ''state_1km'';
         cloudMask = ee_lt (extract_bits H qa 10 (Some 11) (Some ''cloud_qa'')) (num 1);
         shadowMask = ee_Not (extract_bits H qa 2 None (Some ''shadow_qa''));
         snowMask = ee_Not (extract_bits H qa 12 None (Some ''snow_qa''));
         sensorZenith = ee_lt (ee_abs (ee_select1 img ''SensorZenith'')) (num 6000);
         msk = ee_And (ee_And (ee_And cloudMask shadowMask) snowMask) sensorZenith
     in ee_updateMask img msk)"

definition Modis_qa :: "helpers \<Rightarrow> image \<Rightarrow> image" where
  \<comment> \<open>the method as the class holds it, decorated\<close>
  "Modis_qa H = carry_metadata H (Modis_qa_body H)"

definition Landsat8_qa_body :: "helpers \<Rightarrow> image \<Rightarrow> image" where
  "Landsat8_qa_body H img =
    (let qa_band = ee_select1 img ''pixel_qa'';
         qaCloud = ee_eq (extract_bits H qa_band 5 None (Some ''cloud_mask'')) (num 0);
         qaShadow = ee_eq (extract_bits H qa_band 3 None (Some ''shadow_mask'')) (num 0);
         qaSnow = ee_eq (extract_bits H qa_band 4 None (Some ''snow_mask'')) (num 0);
         msk = ee_And (ee_And qaCloud qaShadow) qaSnow
     in ee_updateMask img msk)"

definition Landsat8_qa :: "helpers \<Rightarrow> image \<Rightarrow> image" where
  \<comment> \<open>the method as the class holds it, decorated\<close>
  "Landsat8_qa H = carry_metadata H (Landsat8_qa_body H)"

definition Landsat7_qa_body :: "helpers \<Rightarrow> image \<Rightarrow> image" where
  "Landsat7_qa_body H img =
    (let qa_band = ee_select1 img ''pixel_qa'';
         qaCloud = ee_eq (extract_bits H qa_band 5 None (Some ''cloud_mask'')) (num 0);
         qaShadow = ee_eq (extract_bits H qa_band 3 None (Some ''shadow_mask'')) (num 0);
         qaSnow = ee_eq (extract_bits H qa_band 4 None (Some ''snow_mask'')) (num 0);
         msk = ee_And qaCloud qaShadow
     in ee_updateMask img msk)"

definition Landsat7_qa :: "helpers \<Rightarrow> image \<Rightarrow> image" where
  \<comment> \<open>the method as the class holds it, decorated\<close>
  "Landsat7_qa H = carry_metadata H (Landsat7_qa_body H)"

definition Sentinel2_qa_body :: "helpers \<Rightarrow> image \<Rightarrow> image" where
  "Sentinel2_qa_body H img =
    (let sclImg = ee_select1 img ''SCL'';
         msk = ee_And (ee_gte sclImg (num 4)) (ee_lte sclImg (num 6))
     in ee_updateMask img msk)"

definition Sentinel2_qa :: "helpers \<Rightarrow> image \<Rightarrow> image" where
  \<comment> \<open>the method as the class holds it, decorated\<close>
  "Sentinel2_qa H = carry_metadata H (Sentinel2_qa_body H)"

fun qa_method :: "helpers \<Rightarrow> cls \<Rightarrow> (image \<Rightarrow> image) option" where
  \<comment> \<open>\<^verbatim>\<open>self.qa\<close>: the method the object's class defines, if it defines one\<close>
  "qa_method H Dataset = None"
| "qa_method H Sentinel1 = Some (Sentinel1_qa H)"
| "qa_method H Viirs = Some (Viirs_qa H)"
| "qa_method H Modis = Some (Modis_qa H)"
| "qa_method H Landsat8 = Some (Landsat8_qa H)"
| "qa_method H Landsat7 = Some (Landsat7_qa H)"
| "qa_method H Sentinel2 = Some (Sentinel2_qa H)"
| "qa_method H (Custom n q) = q"

subsection \<open>Dataset\<close>

definition Dataset_init ::
  "service \<Rightarrow> helpers \<Rightarrow> cls \<Rightarrow> geometry \<Rightarrow> int \<Rightarrow> int \<Rightarrow> string \<Rightarrow> bool \<Rightarrow> error + dataset"
where
  \<comment> \<open>\<^verbatim>\<open>Dataset.__init__(self, region, start_time, end_time, asset_id, use_qa)\<close> on an
      object of class \<open>c\<close>. Reading \<^verbatim>\<open>self.qa\<close> raises \<^verbatim>\<open>AttributeError\<close> when the class has
      no such method; the handler raises \<^verbatim>\<open>AttributeError\<close> with its own message.\<close>
  "Dataset_init S H c rgn t0 t1 aid uq =
     (let self = \<lparr> cls_of = c, region = rgn, start_time = t0, end_time = t1, asset_id = aid,
                   use_qa = uq, BANDREMAP = BANDREMAP_table, collection = [],
                   gain = None, bias = None \<rparr>;
          imgcollection =
            ee_filterDate (ee_filterBounds (ee_ImageCollection S (asset_id self)) (region self))
              (start_time self) (end_time self)
      in if use_qa self then
           (case qa_method H c of
              None \<Rightarrow> Inl (AttributeError
                ''qa() method is not defined...please define one or set `use_qa` to False'')
            | Some qa \<Rightarrow> Inr (self\<lparr>collection := ee_map qa imgcollection\<rparr>))
         else Inr (self\<lparr>collection := imgcollection\<rparr>))"

definition Dataset_copy :: "dataset \<Rightarrow> dataset" where
  \<comment> \<open>\<^verbatim>\<open>copy.deepcopy(self)\<close>: another object, equal field by field\<close>
  "Dataset_copy self = self"



definition Dataset_merge :: "dataset \<Rightarrow> dataset \<Rightarrow> bool \<Rightarrow> dataset \<times> dataset option" where
  "Dataset_merge self dset inplace =
     (let merged = ee_sort (ee_merge (collection self) (collection dset)) ''system:time_start''
      in if inplace then (self\<lparr>collection := merged\<rparr>, None)
         else (let outCls = Dataset_copy self
               in (self, Some (outCls\<lparr>collection := merged\<rparr>))))"





definition default_period :: int where
  "default_period = 1"


definition band_pass_body :: "image \<Rightarrow> image \<Rightarrow> image \<Rightarrow> image" where
  \<comment> \<open>the body of \<^verbatim>\<open>band_pass_adjustment\<close>, for a gain and a bias\<close>
  "band_pass_body g b img =
     set_prop (ee_add (ee_multiply img g) b) ''system:time_start''
       (get_prop img ''system:time_start'')"

definition band_pass :: "helpers \<Rightarrow> image \<Rightarrow> image \<Rightarrow> image \<Rightarrow> image" where
  \<comment> \<open>the body, decorated\<close>
  "band_pass H g b = carry_metadata H (band_pass_body g b)"

definition Dataset_band_pass_adjustment :: "helpers \<Rightarrow> dataset \<Rightarrow> image \<Rightarrow> error + image" where
  \<comment> \<open>reading \<^verbatim>\<open>self.gain\<close> or \<^verbatim>\<open>self.bias\<close> raises when the attribute was never set\<close>
  "Dataset_band_pass_adjustment H self img =
     (case gain self of
        None \<Rightarrow> Inl (AttributeError ''gain'')
      | Some g \<Rightarrow> (case bias self of
                    None \<Rightarrow> Inl (AttributeError ''bias'')
                  | Some b \<Rightarrow> Inr (band_pass H g b img)))"

subsection \<open>The sensor classes\<close>

text \<open>
  Each constructor takes the arguments of \<^verbatim>\<open>Dataset.__init__\<close>; the defaults of
  \<^verbatim>\<open>asset_id\<close>, \<^verbatim>\<open>use_qa\<close> and \<^verbatim>\<open>apply_band_adjustment\<close> are the constants that follow
  it.
\<close>

definition Sentinel1_init ::
  "service \<Rightarrow> helpers \<Rightarrow> geometry \<Rightarrow> int \<Rightarrow> int \<Rightarrow> string \<Rightarrow> bool \<Rightarrow> error + dataset"
where
  "Sentinel1_init S H rgn t0 t1 aid uq =
     (case Dataset_init S H Sentinel1 rgn t0 t1 aid uq of
        Inl e \<Rightarrow> Inl e
      | Inr self \<Rightarrow>
          Inr (self\<lparr>collection :=
                 ee_filter (collection self)
                   (list_contains ''transmitterReceiverPolarisation'' ''VH'')\<rparr>))"

definition Sentinel1_asset_id :: string where
  "Sentinel1_asset_id = ''COPERNICUS/S1_GRD''"


definition Viirs_asset_id :: string where
  "Viirs_asset_id = ''NOAA/VIIRS/001/VNP09GA''"


definition Modis_asset_id :: string where
  "Modis_asset_id = ''MODIS/006/MOD09GA''"


definition Landsat8_asset_id :: string where
  "Landsat8_asset_id = ''LANDSAT/LC08/C01/T1_SR''"


definition Landsat7_asset_id :: string where
  "Landsat7_asset_id = ''LANDSAT/LE07/C01/T1_SR''"


definition Sentinel2_asset_id :: string where
  "Sentinel2_asset_id = ''COPERNICUS/S2_SR''"

section \<open>Concrete instances\<close>

text \<open>
  A small service and stand-ins for the three helpers, on which the theorems below are
  exercised. \<open>copy_metadata\<close> gives the result of the wrapped function the properties of
  its input; \<open>single_bit\<close> reads one bit of an integer-valued band.
\<close>

definition copy_metadata :: "(image \<Rightarrow> image) \<Rightarrow> image \<Rightarrow> image" where
  "copy_metadata f img = Image (properties img) (bands (f img)) (footprint (f img))"

definition single_bit :: "image \<Rightarrow> nat \<Rightarrow> nat option \<Rightarrow> string option \<Rightarrow> image" where
  "single_bit img s e n = img_unop (\<lambda>v. of_int ((\<lfloor>v\<rfloor> div 2 ^ s) mod 2)) img"

definition demo_helpers :: helpers where
  "demo_helpers =
     \<lparr> carry_metadata = copy_metadata, get_geoms = footprint, extract_bits = single_bit \<rparr>"

definition scene :: "int \<Rightarrow> geometry \<Rightarrow> string list \<Rightarrow> image" where
  "scene t g pol =
     Image [(''system:time_start'', PNum t), (''transmitterReceiverPolarisation'', PStrs pol)]
       [(''VV'', (\<lambda>c. Some 1)), (''VH'', (\<lambda>c. Some 2)), (''angle'', (\<lambda>c. Some 40))] g"

definition demo_service :: service where
  "demo_service =
     \<lparr> catalog = (\<lambda>a. if a = ''A''
                      then [scene 5 {0, 1} [''VV'', ''VH''], scene 50 {1} [''VV'']] else []),
       reduce_images = (\<lambda>r xs. case xs of [] \<Rightarrow> Image [] [] {} | i # rest \<Rightarrow> i) \<rparr>"

definition demo_dataset :: "cls \<Rightarrow> imgcoll \<Rightarrow> dataset" where
  "demo_dataset c coll =
     \<lparr> cls_of = c, region = {0, 1}, start_time = 0, end_time = 100, asset_id = ''A'',
       use_qa = False, BANDREMAP = BANDREMAP_table, collection = coll,
       gain = None, bias = None \<rparr>"

definition red7 :: image where
  "red7 = Image [(''system:time_start'', PNum 7)] [(''red'', (\<lambda>c. Some 3))] {0}"



definition snowy :: image where
  \<comment> \<open>cell 0 has the snow flag (bit 4) set and no other flag; cell 1 has none\<close>
  "snowy =
     Image []
       [(''pixel_qa'', (\<lambda>c. Some (if c = 0 then 16 else 0))), (''B1'', (\<lambda>c. Some 9))] {0, 1}"

definition bit_band :: "nat \<Rightarrow> band" where
  \<comment> \<open>what \<open>single_bit\<close> gives for bit \<open>s\<close> of \<open>snowy\<close>'s quality band\<close>
  "bit_band s =
     (\<lambda>c. map_option (\<lambda>v. of_int ((\<lfloor>v\<rfloor> div 2 ^ s) mod 2)) (band_of snowy ''pixel_qa'' c))"

section \<open>Properties stated in the specification's terms\<close>

text \<open>
  What the decorator is taken to do wherever a statement needs it: the decorated function
  returns the bands of the plain function's result, and the time stamp of its input.
\<close>

definition keeps_bands :: "helpers \<Rightarrow> bool" where
  "keeps_bands H = (\<forall>f i. bands (carry_metadata H f i) = bands (f i))"

definition keeps_time :: "helpers \<Rightarrow> bool" where
  "keeps_time H = (\<forall>f i. time_start (carry_metadata H f i) = time_start i)"




text \<open>The affine transformation of one pixel: valid where pixel, gain and bias are.\<close>

definition affine_px :: "real option \<Rightarrow> real option \<Rightarrow> real option \<Rightarrow> real option" where
  "affine_px x g b =
     (case x of None \<Rightarrow> None
      | Some u \<Rightarrow> (case g of None \<Rightarrow> None
                  | Some v \<Rightarrow> (case b of None \<Rightarrow> None | Some w \<Rightarrow> Some (u * v + w))))"




section \<open>Facts about the service's operations\<close>

lemma get_prop_set_prop [simp]: "get_prop (set_prop i k (Some v)) k = Some v"
  by (simp add: get_prop_def set_prop_def update_conv')

lemma get_prop_set_prop_copy: "get_prop (set_prop i k (get_prop j k)) k = get_prop j k"
  by (cases "get_prop j k") (simp_all add: get_prop_def set_prop_def update_conv' delete_conv')

lemma footprint_set_prop [simp]: "footprint (set_prop i k v) = footprint i"
  by (simp add: set_prop_def split: option.splits)

lemma bands_set_prop [simp]: "bands (set_prop i k v) = bands i"
  by (simp add: set_prop_def split: option.splits)

lemma time_start_stamped [simp]:
  "time_start (set_prop i ''system:time_start'' (Some (PNum t))) = Some t"
  by (simp add: time_start_def num_prop_def)

lemma time_start_clip [simp]: "time_start (ee_clip i g) = time_start i"
  by (simp add: time_start_def num_prop_def get_prop_def ee_clip_def)

lemma pair_bands_single: "pair_bands f xs [(m, y)] = map (\<lambda>(n, x). (n, px2 f x y)) xs"
  by (simp add: pair_bands_def)

lemma pair_bands_same_length:
  assumes "length xs = length ys"
  shows "pair_bands f xs ys = map (\<lambda>((n, x), (m, y)). (n, px2 f x y)) (zip xs ys)"
proof (cases ys)
  case Nil
  with assms show ?thesis by (simp add: pair_bands_def)
next
  case (Cons y ys')
  note ys = this
  show ?thesis
  proof (cases ys')
    case Nil
    with ys assms obtain x where "xs = [x]" by (cases xs) auto
    with ys Nil show ?thesis by (cases x; cases y) (simp add: pair_bands_def)
  next
    case (Cons y2 ys2)
    with ys assms obtain x x2 xs2 where "xs = x # x2 # xs2"
      by (cases xs; cases "tl xs") auto
    with ys Cons show ?thesis by (simp add: pair_bands_def split: prod.splits)
  qed
qed

lemma nth_pair_bands:
  assumes "length xs = length ys" "k < length xs"
  shows "pair_bands f xs ys ! k = (fst (xs ! k), px2 f (snd (xs ! k)) (snd (ys ! k)))"
  using assms by (simp add: pair_bands_same_length split: prod.splits)

lemma length_pair_bands: "length xs = length ys \<Longrightarrow> length (pair_bands f xs ys) = length xs"
  by (simp add: pair_bands_same_length)



lemma demo_keeps_bands: "keeps_bands demo_helpers"
  by (simp add: keeps_bands_def demo_helpers_def copy_metadata_def)

lemma demo_keeps_time: "keeps_time demo_helpers"
  by (simp add: keeps_time_def demo_helpers_def copy_metadata_def time_start_def num_prop_def
      get_prop_def)

section \<open>Construction\<close>

lemma filter_region_window:
  "ee_filterDate (ee_filterBounds xs g) a b
     = filter (\<lambda>i. footprint i \<inter> g \<noteq> {} \<and> in_window a b i) xs"
  by (simp add: ee_filterDate_def ee_filterBounds_def conj_commute)

text \<open>
  C1. A dataset that \<^verbatim>\<open>Dataset.__init__\<close> has constructed wraps the collection of the
  asset id, filtered by the region and then by the time window, that is, the images of
  the asset whose footprint meets the region and whose time lies in the window; the qa
  method of the object's class is mapped over that collection exactly when \<^verbatim>\<open>use_qa\<close> is
  true.
\<close>

theorem Dataset_init_collection:
  assumes "Dataset_init S H c rgn t0 t1 aid uq = Inr ds"
  shows "(if uq
          then \<exists>qa. qa_method H c = Some qa \<and>
                 collection ds =
                   ee_map qa (ee_filterDate (ee_filterBounds (ee_ImageCollection S aid) rgn) t0 t1)
          else collection ds =
                 ee_filterDate (ee_filterBounds (ee_ImageCollection S aid) rgn) t0 t1)
         \<and> ee_filterDate (ee_filterBounds (ee_ImageCollection S aid) rgn) t0 t1
             = filter (\<lambda>i. footprint i \<inter> rgn \<noteq> {} \<and> in_window t0 t1 i) (catalog S aid)"
  using assms
  by (auto simp: Dataset_init_def Let_def filter_region_window ee_ImageCollection_def
           split: option.splits if_splits)

theorem Dataset_init_collection_witness:
  "Dataset_init demo_service demo_helpers Dataset {0} 0 10 ''A'' False
     = Inr \<lparr> cls_of = Dataset, region = {0}, start_time = 0, end_time = 10, asset_id = ''A'',
             use_qa = False, BANDREMAP = BANDREMAP_table,
             collection = [scene 5 {0, 1} [''VV'', ''VH'']], gain = None, bias = None \<rparr>
   \<and> [scene 5 {0, 1} [''VV'', ''VH'']]
       = filter (\<lambda>i. footprint i \<inter> {0} \<noteq> {} \<and> in_window 0 10 i) (catalog demo_service ''A'')"
proof -
  have h: "Dataset_init demo_service demo_helpers Dataset {0} 0 10 ''A'' False
     = Inr \<lparr> cls_of = Dataset, region = {0}, start_time = 0, end_time = 10, asset_id = ''A'',
             use_qa = False, BANDREMAP = BANDREMAP_table,
             collection = [scene 5 {0, 1} [''VV'', ''VH'']], gain = None, bias = None \<rparr>"
    by (simp add: Dataset_init_def Let_def ee_filterDate_def ee_filterBounds_def
        ee_ImageCollection_def demo_service_def scene_def in_window_def time_start_def
        num_prop_def get_prop_def)
  from Dataset_init_collection[OF h] h show ?thesis by simp
qed


text \<open>
  C9. Constructing a Sentinel1 dataset succeeds whatever \<^verbatim>\<open>use_qa\<close> is, and every image of
  its collection, right after construction, has a \<^verbatim>\<open>transmitterReceiverPolarisation\<close> list
  that contains \<^verbatim>\<open>VH\<close>.
\<close>

theorem Sentinel1_only_VH:
  "\<exists>ds. Sentinel1_init S H rgn t0 t1 aid uq = Inr ds
        \<and> (\<forall>i \<in> set (collection ds).
              \<exists>xs. get_prop i ''transmitterReceiverPolarisation'' = Some (PStrs xs)
                   \<and> ''VH'' \<in> set xs)"
  by (auto simp: Sentinel1_init_def Dataset_init_def Let_def ee_filter_def list_contains_def
           split: sum.splits option.splits pval.splits)

lemma demo_Sentinel1:
  "Sentinel1_init demo_service demo_helpers {0, 1} 0 100 ''A'' True
     = Inr \<lparr> cls_of = Sentinel1, region = {0, 1}, start_time = 0, end_time = 100,
             asset_id = ''A'', use_qa = True, BANDREMAP = BANDREMAP_table,
             collection = [Sentinel1_qa demo_helpers (scene 5 {0, 1} [''VV'', ''VH''])],
             gain = None, bias = None \<rparr>"
  apply (simp add: Sentinel1_init_def Dataset_init_def Let_def ee_filterDate_def
        ee_filterBounds_def ee_ImageCollection_def demo_service_def in_window_def
        time_start_def num_prop_def get_prop_def ee_map_def ee_filter_def list_contains_def)
  apply (simp add: scene_def Sentinel1_qa_def demo_helpers_def copy_metadata_def)
  done

theorem Sentinel1_only_VH_witness:
  "Sentinel1_init demo_service demo_helpers {0, 1} 0 100 ''A'' True
     = Inr \<lparr> cls_of = Sentinel1, region = {0, 1}, start_time = 0, end_time = 100,
             asset_id = ''A'', use_qa = True, BANDREMAP = BANDREMAP_table,
             collection = [Sentinel1_qa demo_helpers (scene 5 {0, 1} [''VV'', ''VH''])],
             gain = None, bias = None \<rparr>
   \<and> (\<exists>xs. get_prop (Sentinel1_qa demo_helpers (scene 5 {0, 1} [''VV'', ''VH'']))
               ''transmitterReceiverPolarisation'' = Some (PStrs xs)
           \<and> ''VH'' \<in> set xs)"
proof -
  note h = demo_Sentinel1
  from Sentinel1_only_VH[of demo_service demo_helpers "{0, 1}" 0 100 "''A''" True] h
  show ?thesis by simp
qed

section \<open>Composition\<close>


text \<open>
  C6. The collection that \<^verbatim>\<open>a.merge(b)\<close> produces holds exactly the images of \<open>a\<close>'s
  collection together with those of \<open>b\<close>'s, in ascending order of \<^verbatim>\<open>system:time_start\<close>
  (an image without the property counts as earlier than any with it), whether the result
  is returned in a copy or assigned to the receiver.
\<close>

theorem Dataset_merge_sorted_union:
  "(\<exists>out. snd (Dataset_merge a b False) = Some out
      \<and> mset (collection out) = mset (collection a) + mset (collection b)
      \<and> sorted (map time_start (collection out)))
   \<and> mset (collection (fst (Dataset_merge a b True))) = mset (collection a) + mset (collection b)
   \<and> sorted (map time_start (collection (fst (Dataset_merge a b True))))"
proof -
  have "sorted (map time_start (ee_sort xs ''system:time_start''))" for xs
    unfolding ee_sort_def time_start_def by (rule sorted_sort_key)
  moreover have "mset (ee_sort xs k) = mset xs" for xs k
    by (simp add: ee_sort_def)
  ultimately show ?thesis
    by (simp add: Dataset_merge_def Let_def Dataset_copy_def ee_merge_def)
qed










section \<open>Band-pass adjustment\<close>

lemma time_start_body: "time_start (band_pass_body g b img) = time_start img"
  by (simp add: band_pass_body_def time_start_def num_prop_def get_prop_set_prop_copy)

lemma bands_body: "bands (band_pass_body g b img) = bands (ee_add (ee_multiply img g) b)"
  by (simp add: band_pass_body_def)

lemma affine_bands:
  assumes "length (bands g) = length (bands img)" "length (bands b) = length (bands img)"
    and "k < length (bands img)"
  shows "fst (bands (ee_add (ee_multiply img g) b) ! k) = fst (bands img ! k)"
    and "snd (bands (ee_add (ee_multiply img g) b) ! k) c
           = affine_px (snd (bands img ! k) c) (snd (bands g ! k) c) (snd (bands b ! k) c)"
  using assms
  by (simp_all add: ee_add_def ee_multiply_def img_binop_def nth_pair_bands length_pair_bands
        px2_def affine_px_def split: option.splits)

text \<open>
  C8. On a dataset whose gain and bias are set, and with a decorator that keeps the bands
  of the decorated function's result and the time stamp of its input,
  \<^verbatim>\<open>band_pass_adjustment(img)\<close> returns an image whose bands are those of
  \<^verbatim>\<open>img.multiply(gain).add(bias)\<close> and whose \<^verbatim>\<open>system:time_start\<close> is that of \<open>img\<close>; the
  undecorated body already has that time stamp. Where image, gain and bias have as many
  bands as each other, band \<open>k\<close> of the result keeps its name and holds, pixel by pixel,
  the value of \<open>img\<close> times the gain plus the bias.
\<close>

theorem band_pass_adjustment_affine:
  assumes "gain self = Some g" and "bias self = Some b"
    and "keeps_bands H" and "keeps_time H"
  shows "\<exists>r. Dataset_band_pass_adjustment H self img = Inr r
           \<and> time_start r = time_start img
           \<and> time_start (band_pass_body g b img) = time_start img
           \<and> bands r = bands (band_pass_body g b img)
           \<and> bands r = bands (ee_add (ee_multiply img g) b)
           \<and> (length (bands g) = length (bands img) \<and> length (bands b) = length (bands img)
                \<longrightarrow> (\<forall>k < length (bands img). \<forall>c.
                       fst (bands r ! k) = fst (bands img ! k)
                       \<and> snd (bands r ! k) c
                           = affine_px (snd (bands img ! k) c) (snd (bands g ! k) c)
                               (snd (bands b ! k) c)))"
proof -
  let ?r = "band_pass H g b img"
  have r: "Dataset_band_pass_adjustment H self img = Inr ?r"
    using assms(1,2) by (simp add: Dataset_band_pass_adjustment_def)
  have t: "time_start ?r = time_start img"
    using assms(4) by (simp add: band_pass_def keeps_time_def)
  have bb: "bands ?r = bands (ee_add (ee_multiply img g) b)"
    using assms(3) by (simp add: band_pass_def keeps_bands_def bands_body)
  show ?thesis
    using r t bb by (simp add: time_start_body bands_body affine_bands)
qed


theorem band_pass_adjustment_affine_witness:
  "gain ((demo_dataset Landsat7 [])\<lparr>gain := Some (ee_constant [2]), bias := Some (ee_constant [1])\<rparr>)
      = Some (ee_constant [2])
   \<and> bias ((demo_dataset Landsat7 [])\<lparr>gain := Some (ee_constant [2]), bias := Some (ee_constant [1])\<rparr>)
      = Some (ee_constant [1])
   \<and> keeps_bands demo_helpers \<and> keeps_time demo_helpers
   \<and> (\<exists>r. Dataset_band_pass_adjustment demo_helpers
             ((demo_dataset Landsat7 [])\<lparr>gain := Some (ee_constant [2]), bias := Some (ee_constant [1])\<rparr>)
             red7 = Inr r
          \<and> time_start r = Some 7 \<and> snd (bands r ! 0) 0 = Some 7)"
proof -
  let ?X = "(demo_dataset Landsat7 [])\<lparr>gain := Some (ee_constant [2]), bias := Some (ee_constant [1])\<rparr>"
  have g: "gain ?X = Some (ee_constant [2])" and b: "bias ?X = Some (ee_constant [1])"
    by simp_all
  from band_pass_adjustment_affine[OF g b demo_keeps_bands demo_keeps_time, of red7]
  obtain r where r: "Dataset_band_pass_adjustment demo_helpers ?X red7 = Inr r"
    and t: "time_start r = time_start red7"
    and p: "length (bands (ee_constant [2])) = length (bands red7)
              \<and> length (bands (ee_constant [1])) = length (bands red7)
            \<longrightarrow> (\<forall>k < length (bands red7). \<forall>c.
                   fst (bands r ! k) = fst (bands red7 ! k)
                   \<and> snd (bands r ! k) c
                       = affine_px (snd (bands red7 ! k) c) (snd (bands (ee_constant [2]) ! k) c)
                           (snd (bands (ee_constant [1]) ! k) c))"
    by blast
  from p have "snd (bands r ! 0) 0 = Some 7"
    by (simp add: red7_def ee_constant_def affine_px_def)
  moreover from t have "time_start r = Some 7"
    by (simp add: red7_def time_start_def num_prop_def get_prop_def)
  ultimately show ?thesis
    using r g b demo_keeps_bands demo_keeps_time by blast
qed

section \<open>Quality masks\<close>

lemma mask_bands_single: "mask_bands xs [(k, m)] = map (\<lambda>(n, x). (n, apply_mask x m)) xs"
  by (simp add: mask_bands_def)

lemma bands_eq0:
  assumes "bands e = [(n, flag)]"
  shows "bands (ee_eq e (num 0)) = [(n, (\<lambda>c. map_option (\<lambda>v. b2r (v = 0)) (flag c)))]"
  using assms
  by (auto simp: ee_eq_def img_binop_def num_def ee_constant_def pair_bands_single px2_def
      split: option.splits)

lemma bands_And:
  assumes "bands x = [(n, p)]" "bands y = [(m, q)]"
  shows "bands (ee_And x y) = [(n, px2 (\<lambda>u v. b2r (u \<noteq> 0 \<and> v \<noteq> 0)) p q)]"
  using assms by (simp add: ee_And_def img_binop_def pair_bands_single)

text \<open>
  C10. Let the decorator keep bands and let \<^verbatim>\<open>extract_bits\<close> give single-band images for
  the cloud (bit 5), shadow (bit 3) and snow (bit 4) flags of \<^verbatim>\<open>pixel_qa\<close>. Then
  \<^verbatim>\<open>Landsat7.qa\<close> keeps a pixel exactly where the cloud flag and the shadow flag are 0,
  whatever the snow flag is, while \<^verbatim>\<open>Landsat8.qa\<close> keeps it exactly where all three flags
  are 0.
\<close>

theorem Landsat_qa_masks:
  assumes "keeps_bands H"
    and "bands (extract_bits H (ee_select1 img ''pixel_qa'') 5 None (Some ''cloud_mask'')) = [(nc, cloud)]"
    and "bands (extract_bits H (ee_select1 img ''pixel_qa'') 3 None (Some ''shadow_mask'')) = [(ns, shadow)]"
    and "bands (extract_bits H (ee_select1 img ''pixel_qa'') 4 None (Some ''snow_mask'')) = [(nw, snow)]"
  shows "bands (Landsat7_qa H img)
           = map (\<lambda>(n, x). (n, (\<lambda>c. if cloud c = Some 0 \<and> shadow c = Some 0 then x c else None)))
               (bands img)
         \<and> bands (Landsat8_qa H img)
           = map (\<lambda>(n, x). (n, (\<lambda>c. if cloud c = Some 0 \<and> shadow c = Some 0 \<and> snow c = Some 0
                                    then x c else None)))
               (bands img)"
proof -
  note c = bands_eq0[OF assms(2)] and s = bands_eq0[OF assms(3)] and w = bands_eq0[OF assms(4)]
  note cs = bands_And[OF c s]
  note csw = bands_And[OF cs w]
  have 7: "bands (Landsat7_qa_body H img)
           = map (\<lambda>(n, x). (n, (\<lambda>c. if cloud c = Some 0 \<and> shadow c = Some 0 then x c else None)))
               (bands img)"
    unfolding Landsat7_qa_body_def Let_def ee_updateMask_def
    by (simp add: cs mask_bands_single)
       (auto simp: apply_mask_def px2_def b2r_def fun_eq_iff split: option.splits)
  have 8: "bands (Landsat8_qa_body H img)
           = map (\<lambda>(n, x). (n, (\<lambda>c. if cloud c = Some 0 \<and> shadow c = Some 0 \<and> snow c = Some 0
                                    then x c else None)))
               (bands img)"
    unfolding Landsat8_qa_body_def Let_def ee_updateMask_def
    by (simp add: csw mask_bands_single)
       (auto simp: apply_mask_def px2_def b2r_def fun_eq_iff split: option.splits)
  from assms(1) 7 8 show ?thesis
    by (simp add: Landsat7_qa_def Landsat8_qa_def keeps_bands_def)
qed

lemma demo_flag:
  "bands (extract_bits demo_helpers (ee_select1 snowy ''pixel_qa'') s None nm) = [(''pixel_qa'', bit_band s)]"
  by (simp add: demo_helpers_def single_bit_def img_unop_def ee_select1_def ee_select_def bit_band_def)

theorem Landsat_qa_masks_witness:
  "keeps_bands demo_helpers
   \<and> bands (extract_bits demo_helpers (ee_select1 snowy ''pixel_qa'') 5 None (Some ''cloud_mask''))
       = [(''pixel_qa'', bit_band 5)]
   \<and> bands (extract_bits demo_helpers (ee_select1 snowy ''pixel_qa'') 3 None (Some ''shadow_mask''))
       = [(''pixel_qa'', bit_band 3)]
   \<and> bands (extract_bits demo_helpers (ee_select1 snowy ''pixel_qa'') 4 None (Some ''snow_mask''))
       = [(''pixel_qa'', bit_band 4)]
   \<and> bit_band 4 0 = Some 1
   \<and> snd (bands (Landsat7_qa demo_helpers snowy) ! 1) 0 = Some 9
   \<and> snd (bands (Landsat8_qa demo_helpers snowy) ! 1) 0 = None"
proof -
  have v: "bit_band 5 0 = Some 0" "bit_band 3 0 = Some 0" "bit_band 4 0 = Some 1"
    by (simp_all add: bit_band_def snowy_def band_of_def)
  have b: "bands snowy = [(''pixel_qa'', (\<lambda>c. Some (if c = 0 then 16 else 0))), (''B1'', (\<lambda>c. Some 9))]"
    by (simp add: snowy_def)
  from Landsat_qa_masks[OF demo_keeps_bands demo_flag demo_flag demo_flag] v
  have "snd (bands (Landsat7_qa demo_helpers snowy) ! 1) 0 = Some 9
        \<and> snd (bands (Landsat8_qa demo_helpers snowy) ! 1) 0 = None"
    by (simp add: b)
  with v show ?thesis
    by (simp add: demo_keeps_bands demo_flag)
qed

section \<open>Band names\<close>

























end
